theory Spec2Isabelle
  imports Complex_Main
begin

section \<open>Order service: data model\<close>

text \<open>
  The service (\<^verbatim>\<open>server.js\<close>) keeps products and orders in MongoDB, reached through
  Mongoose models, and publishes an event on an Azure Service Bus queue. The model below
  passes that world around as an explicit state. The value of a JavaScript \<^verbatim>\<open>Number\<close>
  is a rational (every finite double is one); comparisons are exact, and the arithmetic
  of the handler on them is a parameter, see \<open>platform\<close>. A JSON field that may be
  missing is an \<open>option\<close>; \<open>productId\<close> values are strings and \<open>quantity\<close> values
  are numbers when present.
\<close>

text \<open>
  What the handlers call and this repository does not contain: Mongoose's cast of a
  string to an ObjectId (\<open>None\<close> when the cast fails and the query rejects with a
  CastError), the multiplication and the addition of doubles, and
  \<^verbatim>\<open>String.prototype.toUpperCase\<close>. They are parameters, and nothing is assumed of them.
  An ObjectId of a product is written as its canonical string, the key of the
  \<open>products\<close> map; an ObjectId of an order is written as the number under which the
  \<open>orders\<close> map keeps it, so that the one cast appears with two result types.
\<close>

record platform =
  castObjectId :: "string \<Rightarrow> string option"
  castOrderId :: "string \<Rightarrow> nat option"
  num_times :: "rat \<Rightarrow> rat \<Rightarrow> rat"
  num_plus :: "rat \<Rightarrow> rat \<Rightarrow> rat"
  toUpperCase :: "string \<Rightarrow> string"

text \<open>A JSON value, as \<^verbatim>\<open>express.json()\<close> parses it, and what \<^verbatim>\<open>!v\<close> negates.\<close>

datatype jsval =
  JNull | JBool bool | JNum rat | JStr string | JArr "jsval list" | JObj "(string \<times> jsval) list"

fun truthy :: "jsval \<Rightarrow> bool" where
  "truthy JNull = False"
| "truthy (JBool b) = b"
| "truthy (JNum n) = (n \<noteq> 0)"
| "truthy (JStr str) = (str \<noteq> [])"
| "truthy (JArr xs) = True"
| "truthy (JObj kvs) = True"

text \<open>\<^verbatim>\<open>productSchema\<close>: name, category, price, stock. The document key \<^verbatim>\<open>_id\<close> is the
  key of the \<open>products\<close> map of the state.\<close>

record product =
  name :: string
  category :: "string option"
  price :: rat
  stock :: rat

text \<open>\<^verbatim>\<open>orderItemSchema\<close>: productId, name, price, quantity.\<close>

record order_item =
  item_productId :: string
  item_name :: string
  item_price :: rat
  item_quantity :: rat

text \<open>\<^verbatim>\<open>orderSchema\<close> with \<^verbatim>\<open>timestamps: true\<close>: status, items, totalAmount, and the
  \<^verbatim>\<open>_id\<close>, \<^verbatim>\<open>createdAt\<close>, \<^verbatim>\<open>updatedAt\<close> that Mongoose manages.\<close>

record order =
  order_id :: nat
  status :: string
  items :: "order_item list"
  totalAmount :: rat
  createdAt :: nat
  updatedAt :: nat

text \<open>One entry of \<^verbatim>\<open>req.body.items\<close> that is not \<^verbatim>\<open>null\<close>; the handler destructures
  \<^verbatim>\<open>{ productId, quantity }\<close> from it. An entry of the array is a \<open>req_item option\<close>,
  with \<open>None\<close> for \<^verbatim>\<open>null\<close>, which cannot be destructured.\<close>

record req_item =
  productId :: "string option"
  quantity :: "rat option"

text \<open>The body of \<^verbatim>\<open>POST /api/orders\<close>. \<open>body_items\<close> is \<open>None\<close> when the field is
  missing or is not an array. The other fields stand for what a client may send besides.\<close>

record post_body =
  body_items :: "req_item option list option"
  body_status :: "string option"
  body_totalAmount :: "rat option"
  body_customerEmail :: "string option"

text \<open>The message body built by \<^verbatim>\<open>sendOrderCreatedMessage\<close>.\<close>

record payload =
  p_orderId :: nat
  p_customerEmail :: "string option"
  p_items :: "order_item list"
  p_totalAmount :: rat
  p_status :: string
  p_createdAt :: nat

datatype exn = Error (message: string)

datatype console_line = Log string | Warn string | ConsoleError string

datatype json = ErrorJson string | OrderJson order

text \<open>\<^verbatim>\<open>res.status(code).json(body)\<close>.\<close>

datatype response = Response nat json

text \<open>How a loop body of an \<^verbatim>\<open>async\<close> handler leaves the loop early: by
  \<^verbatim>\<open>return res.status(..).json(..)\<close> or by a rejected \<^verbatim>\<open>await\<close>.\<close>

datatype abrupt = Returned response | Thrown exn

text \<open>
  The world of the process: the two collections, the counter behind fresh \<^verbatim>\<open>_id\<close>s,
  the global \<^verbatim>\<open>sbSender\<close> (the queue name it was created for, \<open>None\<close> for \<^verbatim>\<open>null\<close>),
  the messages delivered to the queue, and the console.
\<close>

record state =
  products :: "string \<rightharpoonup> product"
  orders :: "nat \<rightharpoonup> order"
  next_id :: nat
  sbSender :: "string option"
  sent :: "payload list"
  console :: "console_line list"

text \<open>
  The calls into the database and the queue are awaited and may reject for a reason of
  their own (a lost connection). Which ones do is a parameter of a request: the lookup
  for the \<open>i\<close>-th entry, the save, the stock update for the \<open>i\<close>-th line, the send.
  A rejection that the request itself causes, an id that does not cast, is not among
  them: the id decides it.
\<close>

record faults =
  findById_rejects :: "nat \<Rightarrow> exn option"
  save_rejects :: "exn option"
  updateOne_rejects :: "nat \<Rightarrow> exn option"
  sendMessages_rejects :: "exn option"

definition no_faults :: faults where
  "no_faults = \<lparr>findById_rejects = (\<lambda>_. None), save_rejects = None,
     updateOne_rejects = (\<lambda>_. None), sendMessages_rejects = None\<rparr>"

section \<open>Service Bus\<close>

text \<open>\<^verbatim>\<open>initServiceBus\<close>: without both settings it warns and leaves the sender \<^verbatim>\<open>null\<close>;
  a throwing client constructor is caught and reported. \<^verbatim>\<open>!s\<close> holds of a missing and
  of an empty string.\<close>

definition falsy_string :: "string option \<Rightarrow> bool" where
  "falsy_string v = (case v of None \<Rightarrow> True | Some x \<Rightarrow> x = [])"

definition initServiceBus ::
  "string option \<Rightarrow> string option \<Rightarrow> exn option \<Rightarrow> state \<Rightarrow> state" where
  "initServiceBus sbConnectionString sbQueueName client_throws s =
     (if falsy_string sbConnectionString \<or> falsy_string sbQueueName then
        s\<lparr>console := console s @
          [Warn ''[ServiceBus] Missing SERVICE_BUS_CONNECTION_STRING or SERVICE_BUS_QUEUE_NAME. OrderCreated messages will NOT be sent.'']\<rparr>
      else
        (case client_throws of
           Some err \<Rightarrow>
             s\<lparr>console := console s @
               [ConsoleError (''[ServiceBus] Failed to initialize: '' @ message err)]\<rparr>
         | None \<Rightarrow>
             s\<lparr>sbSender := sbQueueName,
               console := console s @
                 [Log (''[ServiceBus] Connected and sender created for queue: '' @
                       (case sbQueueName of Some q \<Rightarrow> q | None \<Rightarrow> []))]\<rparr>))"

text \<open>The \<^verbatim>\<open>try\<close> block of \<^verbatim>\<open>sendOrderCreatedMessage\<close>. The order schema has no
  \<^verbatim>\<open>customerEmail\<close>, so \<^verbatim>\<open>order.customerEmail || null\<close> is \<^verbatim>\<open>null\<close>.\<close>

definition order_payload :: "order \<Rightarrow> payload" where
  "order_payload ord =
     \<lparr>p_orderId = order_id ord, p_customerEmail = None, p_items = items ord,
      p_totalAmount = totalAmount ord, p_status = status ord,
      p_createdAt = createdAt ord\<rparr>"

definition send_try :: "exn option \<Rightarrow> state \<Rightarrow> order \<Rightarrow> exn + state" where
  "send_try rejects s ord =
     (case sbSender s of
        None \<Rightarrow>
          Inr (s\<lparr>console := console s @
            [Warn ''[ServiceBus] Sender is not initialized. Skipping message send.'']\<rparr>)
      | Some q \<Rightarrow>
          (case rejects of
             Some err \<Rightarrow> Inl err
           | None \<Rightarrow>
               Inr (s\<lparr>sent := sent s @ [order_payload ord],
                 console := console s @
                   [Log ''[ServiceBus] OrderCreated message sent for order'']\<rparr>)))"

text \<open>The whole function: the \<^verbatim>\<open>catch\<close> reports and swallows. The result is the
  promise: \<open>Inl\<close> would be a rejection.\<close>

definition sendOrderCreatedMessage :: "exn option \<Rightarrow> state \<Rightarrow> order \<Rightarrow> exn + state" where
  "sendOrderCreatedMessage rejects s ord =
     (case send_try rejects s ord of
        Inl err \<Rightarrow>
          Inr (s\<lparr>console := console s @
            [ConsoleError (''[ServiceBus] Failed to send OrderCreated message: '' @ message err)]\<rparr>)
      | Inr s' \<Rightarrow> Inr s')"

section \<open>Placing an order\<close>

text \<open>The body of the validation loop for one entry: the destructuring, which throws on
  \<^verbatim>\<open>null\<close>; the guard \<^verbatim>\<open>!productId || !quantity || quantity <= 0\<close> (a missing field, an
  empty string and zero are falsy); the awaited \<^verbatim>\<open>Product.findById(productId)\<close>, which
  rejects when the id does not cast or the database fails; the missing product; the stock
  check; \<^verbatim>\<open>lineTotal = product.price * quantity\<close>; and the line that is pushed, with
  \<^verbatim>\<open>product._id\<close>, the key under which the product was found. The result is the line and
  its \<^verbatim>\<open>lineTotal\<close>.\<close>

definition bad_item :: response where
  "bad_item = Response 400 (ErrorJson ''Each item needs productId and positive quantity.'')"

definition check_item ::
  "platform \<Rightarrow> exn option \<Rightarrow> (string \<rightharpoonup> product) \<Rightarrow> req_item option \<Rightarrow>
   abrupt + (order_item \<times> rat)" where
  "check_item pl rejects catalog entry =
     (case entry of
        None \<Rightarrow> Inl (Thrown (Error ''Cannot destructure property productId of null''))
      | Some item \<Rightarrow>
     (case productId item of
        None \<Rightarrow> Inl (Returned bad_item)
      | Some pid \<Rightarrow>
          (case quantity item of
             None \<Rightarrow> Inl (Returned bad_item)
           | Some q \<Rightarrow>
               if pid = [] \<or> q = 0 \<or> q \<le> 0 then Inl (Returned bad_item)
               else
                 (case castObjectId pl pid of
                    None \<Rightarrow> Inl (Thrown (Error ''Cast to ObjectId failed''))
                  | Some oid \<Rightarrow>
                 (case rejects of
                    Some err \<Rightarrow> Inl (Thrown err)
                  | None \<Rightarrow>
                      (case catalog oid of
                         None \<Rightarrow>
                           Inl (Returned (Response 400
                             (ErrorJson (''Product not found: '' @ pid))))
                       | Some prd \<Rightarrow>
                           if stock prd < q then
                             Inl (Returned (Response 400
                               (ErrorJson (''Not enough stock for product: '' @ name prd))))
                           else
                             Inr (\<lparr>item_productId = oid, item_name = name prd,
                                   item_price = price prd, item_quantity = q\<rparr>,
                                  num_times pl (price prd) q)))))))"

text \<open>\<^verbatim>\<open>for (const item of items)\<close> with its two accumulators, \<^verbatim>\<open>orderItems\<close> and
  \<^verbatim>\<open>totalAmount += lineTotal\<close>; \<open>i\<close> counts entries.\<close>

fun validate_items ::
  "platform \<Rightarrow> (nat \<Rightarrow> exn option) \<Rightarrow> (string \<rightharpoonup> product) \<Rightarrow> nat \<Rightarrow>
   req_item option list \<Rightarrow> order_item list \<Rightarrow> rat \<Rightarrow> abrupt + (order_item list \<times> rat)" where
  "validate_items pl rejects catalog i [] orderItems amount = Inr (orderItems, amount)"
| "validate_items pl rejects catalog i (item # rest) orderItems amount =
     (case check_item pl (rejects i) catalog item of
        Inl a \<Rightarrow> Inl a
      | Inr (line, lineTotal) \<Rightarrow>
          validate_items pl rejects catalog (Suc i) rest (orderItems @ [line])
            (num_plus pl amount lineTotal))"

text \<open>
  What \<^verbatim>\<open>save()\<close> validates before it writes, from the two schemas: the status is in
  the enum, \<^verbatim>\<open>items\<close> passes its validator (a non-empty array), and every item has its
  required fields and \<^verbatim>\<open>quantity\<close> at least \<^verbatim>\<open>min: 1\<close>. A required string must be
  non-empty; the other required fields are always present in a line pushed by the loop.
\<close>

definition allowedStatuses :: "string list" where
  "allowedStatuses = [''PENDING'', ''COMPLETED'', ''CANCELLED'']"

definition item_schema_ok :: "order_item \<Rightarrow> bool" where
  "item_schema_ok line = (item_name line \<noteq> [] \<and> 1 \<le> item_quantity line)"

definition order_schema_ok :: "string \<Rightarrow> order_item list \<Rightarrow> bool" where
  "order_schema_ok st lines =
     (st \<in> set allowedStatuses \<and> lines \<noteq> [] \<and> list_all item_schema_ok lines)"

text \<open>\<^verbatim>\<open>new Order({status, items, totalAmount}).save()\<close>.\<close>

definition save ::
  "exn option \<Rightarrow> nat \<Rightarrow> state \<Rightarrow> string \<Rightarrow> order_item list \<Rightarrow> rat \<Rightarrow> exn + (order \<times> state)" where
  "save rejects now s st lines amount =
     (if \<not> order_schema_ok st lines then Inl (Error ''Order validation failed'')
      else
        (case rejects of
           Some err \<Rightarrow> Inl err
         | None \<Rightarrow>
             (let ord = \<lparr>order_id = next_id s, status = st, items = lines,
                         totalAmount = amount, createdAt = now, updatedAt = now\<rparr>
              in Inr (ord, s\<lparr>orders := (orders s)(next_id s \<mapsto> ord),
                              next_id := Suc (next_id s)\<rparr>))))"

text \<open>\<^verbatim>\<open>Product.updateOne({_id}, {$inc: {stock: d}})\<close>: no document, no change.\<close>

definition updateOne :: "state \<Rightarrow> string \<Rightarrow> rat \<Rightarrow> state" where
  "updateOne s pid d =
     (case products s pid of
        None \<Rightarrow> s
      | Some prd \<Rightarrow> s\<lparr>products := (products s)(pid \<mapsto> prd\<lparr>stock := stock prd + d\<rparr>)\<rparr>)"

text \<open>The second loop: one awaited update per line, in order. A rejection leaves the
  loop with the updates made so far.\<close>

fun decrease_stock ::
  "(nat \<Rightarrow> exn option) \<Rightarrow> nat \<Rightarrow> order_item list \<Rightarrow> state \<Rightarrow> exn option \<times> state" where
  "decrease_stock rejects i [] s = (None, s)"
| "decrease_stock rejects i (item # rest) s =
     (case rejects i of
        Some err \<Rightarrow> (Some err, s)
      | None \<Rightarrow>
          decrease_stock rejects (Suc i) rest
            (updateOne s (item_productId item) (- item_quantity item)))"

text \<open>The outer \<^verbatim>\<open>catch\<close> of the handler.\<close>

definition create_failed :: "state \<Rightarrow> response \<times> state" where
  "create_failed s =
     (Response 500 (ErrorJson ''Failed to create order.''),
      s\<lparr>console := console s @ [ConsoleError ''[Order-Service] Error creating order'']\<rparr>)"

text \<open>The call \<^verbatim>\<open>sendOrderCreatedMessage(savedOrder).catch(..)\<close>: not awaited; a
  rejection would only be reported. Its effects touch the queue and the console only, so
  running it at the call is one of the orders in which they can happen.\<close>

definition publish :: "exn option \<Rightarrow> state \<Rightarrow> order \<Rightarrow> state" where
  "publish rejects s ord =
     (case sendOrderCreatedMessage rejects s ord of
        Inl err \<Rightarrow>
          s\<lparr>console := console s @
            [ConsoleError (''[ServiceBus] Error in sendOrderCreatedMessage: '' @ message err)]\<rparr>
      | Inr s' \<Rightarrow> s')"

text \<open>\<^verbatim>\<open>app.post("/api/orders", ..)\<close>.\<close>

definition place_order ::
  "platform \<Rightarrow> faults \<Rightarrow> nat \<Rightarrow> state \<Rightarrow> 'a post_body_scheme \<Rightarrow> response \<times> state" where
  "place_order pl fl now s body =
     (case body_items body of
        None \<Rightarrow> (Response 400 (ErrorJson ''Order must contain at least one item.''), s)
      | Some its \<Rightarrow>
          if its = [] then
            (Response 400 (ErrorJson ''Order must contain at least one item.''), s)
          else
            (case validate_items pl (findById_rejects fl) (products s) 0 its [] 0 of
               Inl (Returned r) \<Rightarrow> (r, s)
             | Inl (Thrown err) \<Rightarrow> create_failed s
             | Inr (orderItems, amount) \<Rightarrow>
                 (case save (save_rejects fl) now s ''PENDING'' orderItems amount of
                    Inl err \<Rightarrow> create_failed s
                  | Inr (savedOrder, s1) \<Rightarrow>
                      (case decrease_stock (updateOne_rejects fl) 0 orderItems
                              (publish (sendMessages_rejects fl) s1 savedOrder) of
                         (Some err, s2) \<Rightarrow> create_failed s2
                       | (None, s2) \<Rightarrow> (Response 201 (OrderJson savedOrder), s2)))))"

section \<open>Updating the status of an order\<close>

text \<open>\<^verbatim>\<open>app.patch("/api/orders/:id", ..)\<close>. The id is the string of the URL and the status
  is any JSON value or missing. The check
  \<^verbatim>\<open>!status || !allowedStatuses.includes(status.toUpperCase())\<close> comes before the \<^verbatim>\<open>try\<close>:
  a truthy status that is no string has no \<^verbatim>\<open>toUpperCase\<close> to call, the handler throws and
  sends no response (\<open>Inl\<close>). Inside the \<^verbatim>\<open>try\<close>, \<^verbatim>\<open>findByIdAndUpdate\<close> rejects when the id
  does not cast or the database fails; with \<^verbatim>\<open>{ new: true }\<close> it returns the document
  after the update, and \<^verbatim>\<open>timestamps\<close> sets \<^verbatim>\<open>updatedAt\<close>.\<close>

definition invalid_status :: response where
  "invalid_status =
     Response 400 (ErrorJson ''Invalid status. Allowed values: PENDING, COMPLETED, CANCELLED.'')"

definition update_failed :: "state \<Rightarrow> (exn + response) \<times> state" where
  "update_failed s =
     (Inr (Response 500 (ErrorJson ''Failed to update order.'')),
      s\<lparr>console := console s @ [ConsoleError ''[Order-Service] Error updating order'']\<rparr>)"

definition update_status ::
  "platform \<Rightarrow> exn option \<Rightarrow> nat \<Rightarrow> state \<Rightarrow> string \<Rightarrow> jsval option \<Rightarrow>
   (exn + response) \<times> state" where
  "update_status pl rejects now s ident st =
     (case st of
        None \<Rightarrow> (Inr invalid_status, s)
      | Some v \<Rightarrow>
          if \<not> truthy v then (Inr invalid_status, s)
          else
            (case v of
               JStr str \<Rightarrow>
                 if toUpperCase pl str \<notin> set allowedStatuses then (Inr invalid_status, s)
                 else
                   (case castOrderId pl ident of
                      None \<Rightarrow> update_failed s
                    | Some oid \<Rightarrow>
                        (case rejects of
                           Some err \<Rightarrow> update_failed s
                         | None \<Rightarrow>
                             (case orders s oid of
                                None \<Rightarrow> (Inr (Response 404 (ErrorJson ''Order not found.'')), s)
                              | Some ord \<Rightarrow>
                                  (let updatedOrder =
                                         ord\<lparr>status := toUpperCase pl str, updatedAt := now\<rparr>
                                   in (Inr (Response 200 (OrderJson updatedOrder)),
                                       s\<lparr>orders := (orders s)(oid \<mapsto> updatedOrder)\<rparr>)))))
             | _ \<Rightarrow> (Inl (Error ''status.toUpperCase is not a function''), s)))"

section \<open>Example data\<close>

text \<open>
  A platform for the examples. Their product ids are single letters and stand for
  ObjectIds; any other string does not cast. Their order ids are decimal digits. Their
  numbers are small integers and multiples of one half and one quarter, on which the
  product and the sum of doubles are exact. Their statuses are ASCII, on which
  \<^verbatim>\<open>toUpperCase\<close> moves the letters a to z to A to Z.
\<close>

definition ascii_upper_char :: "char \<Rightarrow> char" where
  "ascii_upper_char c =
     (let n = (of_char c :: nat) in if 97 \<le> n \<and> n \<le> 122 then char_of (n - 32) else c)"

definition demo_order_id :: "string \<Rightarrow> nat option" where
  "demo_order_id str =
     (if str = ''0'' then Some 0 else if str = ''1'' then Some 1
      else if str = ''42'' then Some 42 else None)"

definition demo :: platform where
  "demo = \<lparr>castObjectId = (\<lambda>str. if length str = 1 then Some str else None),
     castOrderId = demo_order_id, num_times = (*), num_plus = (+),
     toUpperCase = map ascii_upper_char\<rparr>"

text \<open>A catalog of two products, an empty order collection and a configured sender; a
  request body with the given lines and nothing else.\<close>

definition product_P :: product where
  "product_P = \<lparr>name = ''P'', category = None, price = 10, stock = 5\<rparr>"

definition product_Q :: product where
  "product_Q = \<lparr>name = ''Q'', category = Some ''audio'', price = 5 / 2, stock = 4\<rparr>"

definition shop :: state where
  "shop = \<lparr>products = [''P'' \<mapsto> product_P, ''Q'' \<mapsto> product_Q], orders = Map.empty,
     next_id = 0, sbSender = Some ''orders'', sent = [], console = []\<rparr>"

definition request :: "(string \<times> rat) list \<Rightarrow> post_body" where
  "request lines =
     \<lparr>body_items =
        Some (map (\<lambda>(pid, q). Some \<lparr>productId = Some pid, quantity = Some q\<rparr>) lines),
      body_status = None, body_totalAmount = None, body_customerEmail = None\<rparr>"

definition stock_update_fails :: "nat \<Rightarrow> faults" where
  "stock_update_fails k =
     no_faults\<lparr>updateOne_rejects := (\<lambda>i. if i = k then Some (Error ''connection lost'') else None)\<rparr>"

definition first_order :: order where
  "first_order =
     \<lparr>order_id = 0, status = ''COMPLETED'',
      items = [\<lparr>item_productId = ''P'', item_name = ''P'', item_price = 10, item_quantity = 3\<rparr>],
      totalAmount = 30, createdAt = 7, updatedAt = 7\<rparr>"

definition shop1 :: state where
  "shop1 = shop\<lparr>orders := [0 \<mapsto> first_order], next_id := 1\<rparr>"

section \<open>Properties of the loops\<close>

lemmas handler_defs = place_order_def check_item_def bad_item_def save_def
  order_schema_ok_def item_schema_ok_def allowedStatuses_def publish_def
  sendOrderCreatedMessage_def send_try_def updateOne_def create_failed_def Let_def

lemmas demo_defs = demo_def no_faults_def shop_def request_def product_P_def product_Q_def

lemma check_item_Inr:
  "check_item pl r cat entry = Inr (l, t) \<longleftrightarrow>
     r = None \<and> t = num_times pl (item_price l) (item_quantity l) \<and>
     (\<exists>it pid. entry = Some it \<and> productId it = Some pid \<and> pid \<noteq> [] \<and>
        castObjectId pl pid = Some (item_productId l) \<and>
        quantity it = Some (item_quantity l)) \<and>
     0 < item_quantity l \<and>
     (\<exists>p. cat (item_productId l) = Some p \<and> item_name l = name p \<and>
          item_price l = price p \<and> item_quantity l \<le> stock p)"
  by (cases l) (auto simp: check_item_def split: option.splits)

lemma validate_items_Inr:
  "validate_items pl rej cat i its acc tot = Inr (ls, t) \<Longrightarrow>
   \<exists>new. ls = acc @ new \<and>
     list_all2 (\<lambda>entry l. \<exists>lt. check_item pl None cat entry = Inr (l, lt)) its new \<and>
     t = foldl (\<lambda>a l. num_plus pl a (num_times pl (item_price l) (item_quantity l))) tot new"
proof (induction its arbitrary: i acc tot)
  case Nil
  then show ?case by simp
next
  case (Cons it its)
  from Cons.prems obtain l lt where l: "check_item pl (rej i) cat it = Inr (l, lt)"
    and rest: "validate_items pl rej cat (Suc i) its (acc @ [l]) (num_plus pl tot lt) = Inr (ls, t)"
    by (auto split: sum.splits)
  from l have l': "check_item pl None cat it = Inr (l, lt)"
    and lt: "lt = num_times pl (item_price l) (item_quantity l)"
    by (simp_all add: check_item_Inr)
  from Cons.IH [OF rest] obtain new where
    "ls = (acc @ [l]) @ new"
    "list_all2 (\<lambda>entry l. \<exists>lt. check_item pl None cat entry = Inr (l, lt)) its new"
    "t = foldl (\<lambda>a l. num_plus pl a (num_times pl (item_price l) (item_quantity l)))
           (num_plus pl tot lt) new"
    by blast
  with l' lt show ?case
    by (intro exI [of _ "l # new"]) auto
qed


lemma updateOne_frame:
  "orders (updateOne s pid d) = orders s"
  "next_id (updateOne s pid d) = next_id s"
  "sbSender (updateOne s pid d) = sbSender s"
  "sent (updateOne s pid d) = sent s"
  "console (updateOne s pid d) = console s"
  by (simp_all add: updateOne_def split: option.splits)

lemma decrease_stock_frame:
  "orders (snd (decrease_stock rej i ls s)) = orders s \<and>
   next_id (snd (decrease_stock rej i ls s)) = next_id s \<and>
   sbSender (snd (decrease_stock rej i ls s)) = sbSender s \<and>
   sent (snd (decrease_stock rej i ls s)) = sent s \<and>
   console (snd (decrease_stock rej i ls s)) = console s"
  by (induction ls arbitrary: i s) (auto simp: updateOne_frame split: option.splits)

lemma updateOne_sent_console:
  "updateOne (s\<lparr>sent := m, console := c\<rparr>) pid d = (updateOne s pid d)\<lparr>sent := m, console := c\<rparr>"
  by (simp add: updateOne_def split: option.splits)

lemma decrease_stock_sent_console:
  "decrease_stock rej i ls (s\<lparr>sent := m, console := c\<rparr>) =
     (fst (decrease_stock rej i ls s), (snd (decrease_stock rej i ls s))\<lparr>sent := m, console := c\<rparr>)"
  by (induction ls arbitrary: i s) (auto simp: updateOne_sent_console split: option.splits)

lemma publish_frame:
  "\<exists>m c. publish r s ord = s\<lparr>sent := m, console := c\<rparr>"
proof (cases "sbSender s")
  case None
  then show ?thesis
    by (intro exI [of _ "sent s"] exI) (simp add: publish_def sendOrderCreatedMessage_def send_try_def)
next
  case (Some q)
  show ?thesis
  proof (cases r)
    case None
    with Some show ?thesis
      by (intro exI) (simp add: publish_def sendOrderCreatedMessage_def send_try_def)
  next
    case (Some e)
    with \<open>sbSender s = Some q\<close> show ?thesis
      by (intro exI [of _ "sent s"] exI) (simp add: publish_def sendOrderCreatedMessage_def send_try_def)
  qed
qed

lemma decrease_stock_no_reject_index:
  "decrease_stock (\<lambda>_. None) i ls s = decrease_stock (\<lambda>_. None) 0 ls s"
proof (induction ls arbitrary: i s)
  case Nil
  then show ?case by simp
next
  case (Cons l ls)
  have "decrease_stock (\<lambda>_. None) (Suc i) ls (updateOne s (item_productId l) (- item_quantity l)) =
      decrease_stock (\<lambda>_. None) (Suc 0) ls (updateOne s (item_productId l) (- item_quantity l))"
    using Cons.IH [of "Suc i"] Cons.IH [of "Suc 0"] by simp
  then show ?case by simp
qed

lemma decrease_stock_first_reject:
  assumes "\<forall>j < k. rej (i + j) = None" and "rej (i + k) = Some e" and "k < length ls"
  shows "decrease_stock rej i ls s =
           (Some e, snd (decrease_stock (\<lambda>_. None) 0 (take k ls) s))"
  using assms
proof (induction ls arbitrary: i k s)
  case Nil
  then show ?case by simp
next
  case (Cons l ls)
  show ?case
  proof (cases k)
    case 0
    with Cons.prems show ?thesis by simp
  next
    case (Suc k')
    from Cons.prems(1) Suc have r0: "rej i = None" by force
    have shift: "\<forall>j < k'. rej (Suc i + j) = None"
      using Cons.prems(1) Suc by force
    have "decrease_stock rej (Suc i) ls (updateOne s (item_productId l) (- item_quantity l)) =
        (Some e, snd (decrease_stock (\<lambda>_. None) 0 (take k' ls)
            (updateOne s (item_productId l) (- item_quantity l))))"
      using Cons.IH [OF shift] Cons.prems Suc by simp
    then show ?thesis
      using r0 Suc decrease_stock_no_reject_index [of "Suc 0"] by simp
  qed
qed

lemma check_item_Returned:
  "check_item pl r cat entry = Inl (Returned resp) \<Longrightarrow>
   \<exists>msg. resp = Response 400 (ErrorJson msg)"
  by (auto simp: check_item_def bad_item_def split: if_splits option.splits)

lemma validate_items_Returned:
  "validate_items pl rej cat i its acc tot = Inl (Returned resp) \<Longrightarrow>
   \<exists>msg. resp = Response 400 (ErrorJson msg)"
proof (induction its arbitrary: i acc tot)
  case Nil
  then show ?case by simp
next
  case (Cons it its)
  show ?case
  proof (cases "check_item pl (rej i) cat it")
    case (Inl a)
    with Cons.prems show ?thesis by (auto dest: check_item_Returned)
  next
    case (Inr res)
    with Cons.prems Cons.IH show ?thesis by (cases res) auto
  qed
qed

lemma place_order_created:
  assumes "fst (place_order pl fl now s body) = Response 201 (OrderJson ord)"
  obtains its where "body_items body = Some its" and "its \<noteq> []"
    and "validate_items pl (findById_rejects fl) (products s) 0 its [] 0 =
           Inr (items ord, totalAmount ord)"
    and "save (save_rejects fl) now s ''PENDING'' (items ord) (totalAmount ord) =
           Inr (ord, s\<lparr>orders := (orders s)(next_id s \<mapsto> ord), next_id := Suc (next_id s)\<rparr>)"
    and "decrease_stock (updateOne_rejects fl) 0 (items ord)
           (publish (sendMessages_rejects fl)
              (s\<lparr>orders := (orders s)(next_id s \<mapsto> ord), next_id := Suc (next_id s)\<rparr>) ord) =
           (None, snd (place_order pl fl now s body))"
    and "order_id ord = next_id s" and "status ord = ''PENDING''"
  using assms
  by (auto simp: place_order_def create_failed_def save_def Let_def
      dest: validate_items_Returned
      split: option.splits sum.splits abrupt.splits prod.splits if_splits)

section \<open>Properties of the handlers\<close>

text \<open>
  C1. When an order is created (the response is 201 with the order), its lines are the
  request's entries in order, each with the id, the name and the price of the product
  that the catalog had under the entry's id when the request arrived, and its
  \<open>totalAmount\<close> is the sum of price times quantity over the lines, taken as the handler
  takes it: from zero, line by line, every product and every sum being the platform's
  operation on numbers (for doubles, the rounded one). No law of arithmetic is used. The
  order returned is the one stored.
\<close>

theorem order_total_is_sum_of_catalog_prices:
  assumes "fst (place_order pl fl now s body) = Response 201 (OrderJson ord)"
  shows "\<exists>its. body_items body = Some its \<and>
    list_all2 (\<lambda>entry l. \<exists>it pid. entry = Some it \<and> productId it = Some pid \<and>
        castObjectId pl pid = Some (item_productId l) \<and>
        quantity it = Some (item_quantity l) \<and>
        (\<exists>p. products s (item_productId l) = Some p \<and>
           item_name l = name p \<and> item_price l = price p)) its (items ord) \<and>
    totalAmount ord =
      foldl (\<lambda>a l. num_plus pl a (num_times pl (item_price l) (item_quantity l))) 0 (items ord) \<and>
    orders (snd (place_order pl fl now s body)) (order_id ord) = Some ord"
proof -
  from assms obtain its where its: "body_items body = Some its"
    and val: "validate_items pl (findById_rejects fl) (products s) 0 its [] 0 =
           Inr (items ord, totalAmount ord)"
    and dec: "decrease_stock (updateOne_rejects fl) 0 (items ord)
           (publish (sendMessages_rejects fl)
              (s\<lparr>orders := (orders s)(next_id s \<mapsto> ord), next_id := Suc (next_id s)\<rparr>) ord) =
           (None, snd (place_order pl fl now s body))"
    and oid: "order_id ord = next_id s"
    by (rule place_order_created)
  from validate_items_Inr [OF val]
  have lines: "list_all2 (\<lambda>entry l. \<exists>lt. check_item pl None (products s) entry = Inr (l, lt))
      its (items ord)"
    and tot: "totalAmount ord =
      foldl (\<lambda>a l. num_plus pl a (num_times pl (item_price l) (item_quantity l))) 0 (items ord)"
    by auto
  from lines have snap: "list_all2 (\<lambda>entry l. \<exists>it pid. entry = Some it \<and>
        productId it = Some pid \<and> castObjectId pl pid = Some (item_productId l) \<and>
        quantity it = Some (item_quantity l) \<and>
        (\<exists>p. products s (item_productId l) = Some p \<and>
           item_name l = name p \<and> item_price l = price p)) its (items ord)"
    by (rule list_all2_mono) (auto simp: check_item_Inr)
  obtain m c where pub: "publish (sendMessages_rejects fl)
      (s\<lparr>orders := (orders s)(next_id s \<mapsto> ord), next_id := Suc (next_id s)\<rparr>) ord =
      (s\<lparr>orders := (orders s)(next_id s \<mapsto> ord), next_id := Suc (next_id s)\<rparr>)\<lparr>sent := m, console := c\<rparr>"
    using publish_frame by blast
  have "orders (snd (place_order pl fl now s body)) =
      orders (publish (sendMessages_rejects fl)
        (s\<lparr>orders := (orders s)(next_id s \<mapsto> ord), next_id := Suc (next_id s)\<rparr>) ord)"
    using decrease_stock_frame [of "updateOne_rejects fl" 0 "items ord"
        "publish (sendMessages_rejects fl)
          (s\<lparr>orders := (orders s)(next_id s \<mapsto> ord), next_id := Suc (next_id s)\<rparr>) ord"]
    unfolding dec by simp
  then have "orders (snd (place_order pl fl now s body)) = (orders s)(next_id s \<mapsto> ord)"
    by (simp add: pub)
  with its snap tot oid show ?thesis by simp
qed

theorem order_total_is_sum_of_catalog_prices_witness:
  "fst (place_order demo no_faults 7 shop (request [(''P'', 3), (''Q'', 2)])) =
     Response 201 (OrderJson
       \<lparr>order_id = 0, status = ''PENDING'',
        items = [\<lparr>item_productId = ''P'', item_name = ''P'', item_price = 10, item_quantity = 3\<rparr>,
                 \<lparr>item_productId = ''Q'', item_name = ''Q'', item_price = 5 / 2, item_quantity = 2\<rparr>],
        totalAmount = 35, createdAt = 7, updatedAt = 7\<rparr>) \<and>
   num_plus demo (num_plus demo 0 (num_times demo 10 3)) (num_times demo (5 / 2) 2) = 35 \<and>
   orders (snd (place_order demo no_faults 7 shop (request [(''P'', 3), (''Q'', 2)]))) 0 =
     Some \<lparr>order_id = 0, status = ''PENDING'',
        items = [\<lparr>item_productId = ''P'', item_name = ''P'', item_price = 10, item_quantity = 3\<rparr>,
                 \<lparr>item_productId = ''Q'', item_name = ''Q'', item_price = 5 / 2, item_quantity = 2\<rparr>],
        totalAmount = 35, createdAt = 7, updatedAt = 7\<rparr>"
proof -
  have h: "fst (place_order demo no_faults 7 shop (request [(''P'', 3), (''Q'', 2)])) =
     Response 201 (OrderJson
       \<lparr>order_id = 0, status = ''PENDING'',
        items = [\<lparr>item_productId = ''P'', item_name = ''P'', item_price = 10, item_quantity = 3\<rparr>,
                 \<lparr>item_productId = ''Q'', item_name = ''Q'', item_price = 5 / 2, item_quantity = 2\<rparr>],
        totalAmount = 35, createdAt = 7, updatedAt = 7\<rparr>)"
    by (simp add: handler_defs demo_defs)
  from order_total_is_sum_of_catalog_prices [OF h]
  have "(35 :: rat) =
      num_plus demo (num_plus demo 0 (num_times demo 10 3)) (num_times demo (5 / 2) 2) \<and>
    orders (snd (place_order demo no_faults 7 shop (request [(''P'', 3), (''Q'', 2)]))) 0 =
     Some \<lparr>order_id = 0, status = ''PENDING'',
        items = [\<lparr>item_productId = ''P'', item_name = ''P'', item_price = 10, item_quantity = 3\<rparr>,
                 \<lparr>item_productId = ''Q'', item_name = ''Q'', item_price = 5 / 2, item_quantity = 2\<rparr>],
        totalAmount = 35, createdAt = 7, updatedAt = 7\<rparr>"
    by (elim exE conjE) simp
  with h show ?thesis by simp
qed







text \<open>
  C4. The stock check of a line reads the stock in the database, which the lines before
  it have not yet reduced. With stock 5, two lines of quantity 3 for the same product
  both pass, the order is created, and the two decrements leave the stock at -1.
\<close>

theorem duplicate_lines_oversell:
  "check_item demo None (products shop) (Some \<lparr>productId = Some ''P'', quantity = Some 3\<rparr>) =
     Inr (\<lparr>item_productId = ''P'', item_name = ''P'', item_price = 10, item_quantity = 3\<rparr>,
          30) \<and>
   fst (place_order demo no_faults 7 shop (request [(''P'', 3), (''P'', 3)])) =
     Response 201 (OrderJson
       \<lparr>order_id = 0, status = ''PENDING'',
        items = [\<lparr>item_productId = ''P'', item_name = ''P'', item_price = 10, item_quantity = 3\<rparr>,
                 \<lparr>item_productId = ''P'', item_name = ''P'', item_price = 10, item_quantity = 3\<rparr>],
        totalAmount = 60, createdAt = 7, updatedAt = 7\<rparr>) \<and>
   map_option stock (products shop ''P'') = Some 5 \<and>
   map_option stock
     (products (snd (place_order demo no_faults 7 shop (request [(''P'', 3), (''P'', 3)]))) ''P'') =
     Some (- 1)"
  by (simp add: handler_defs demo_defs)

lemma updateOne_products:
  "products (updateOne s pid' d) pid =
     (if pid = pid' then map_option (\<lambda>p. p\<lparr>stock := stock p + d\<rparr>) (products s pid)
      else products s pid)"
  by (simp add: updateOne_def split: option.splits)

lemma decrease_stock_products:
  "fst (decrease_stock rej i ls s) = None \<Longrightarrow>
   products (snd (decrease_stock rej i ls s)) pid =
     map_option
       (\<lambda>p. p\<lparr>stock := stock p -
          (\<Sum>l\<leftarrow>filter (\<lambda>l. item_productId l = pid) ls. item_quantity l)\<rparr>)
       (products s pid)"
proof (induction ls arbitrary: i s)
  case Nil
  then show ?case by (simp add: option.map_ident)
next
  case (Cons l ls)
  from Cons.prems have r0: "rej i = None"
    by (cases "rej i") auto
  with Cons.prems have "fst (decrease_stock rej (Suc i) ls
      (updateOne s (item_productId l) (- item_quantity l))) = None"
    by simp
  from Cons.IH [OF this] r0 show ?case
    by (cases "products s pid") (auto simp: updateOne_products)
qed


lemma filter_distinct_key:
  "distinct (map f xs) \<Longrightarrow>
   filter (\<lambda>x. f x = k) xs = [] \<or> (\<exists>x \<in> set xs. filter (\<lambda>x. f x = k) xs = [x])"
proof (induction xs)
  case Nil
  then show ?case by simp
next
  case (Cons x xs)
  show ?case
  proof (cases "f x = k")
    case True
    from Cons.prems have "f x \<notin> f ` set xs"
      by simp
    with True have "\<forall>y \<in> set xs. f y \<noteq> k"
      by blast
    then have "filter (\<lambda>x. f x = k) xs = []"
      by (simp add: filter_empty_conv)
    with True show ?thesis by simp
  next
    case False
    with Cons show ?thesis by auto
  qed
qed

lemma checked_line_within_stock:
  "list_all2 (\<lambda>entry l. \<exists>lt. check_item pl None cat entry = Inr (l, lt)) its ls \<Longrightarrow>
   l \<in> set ls \<Longrightarrow>
   \<exists>p. cat (item_productId l) = Some p \<and> item_quantity l \<le> stock p"
  by (induction its ls rule: list_all2_induct) (auto simp: check_item_Inr)

text \<open>
  The stock of a product can only go below zero through lines that repeat it: when the
  lines of a created order name pairwise different products, every product whose stock
  was not negative before still has a stock that is not negative.
\<close>

lemma distinct_lines_keep_stock_nonnegative:
  assumes "fst (place_order pl fl now s body) = Response 201 (OrderJson ord)"
    and "distinct (map item_productId (items ord))"
    and "products s pid = Some p" and "0 \<le> stock p"
  shows "\<exists>p'. products (snd (place_order pl fl now s body)) pid = Some p' \<and> 0 \<le> stock p'"
proof -
  let ?s1 = "s\<lparr>orders := (orders s)(next_id s \<mapsto> ord), next_id := Suc (next_id s)\<rparr>"
  let ?due = "\<Sum>l\<leftarrow>filter (\<lambda>l. item_productId l = pid) (items ord). item_quantity l"
  from assms(1) obtain its where
    val: "validate_items pl (findById_rejects fl) (products s) 0 its [] 0 =
           Inr (items ord, totalAmount ord)"
    and dec: "decrease_stock (updateOne_rejects fl) 0 (items ord)
           (publish (sendMessages_rejects fl) ?s1 ord) =
           (None, snd (place_order pl fl now s body))"
    by (rule place_order_created)
  from validate_items_Inr [OF val]
  have checked: "list_all2 (\<lambda>entry l. \<exists>lt. check_item pl None (products s) entry = Inr (l, lt))
      its (items ord)"
    by auto
  have due: "?due \<le> stock p"
    using filter_distinct_key [OF assms(2), of pid]
  proof
    assume "filter (\<lambda>l. item_productId l = pid) (items ord) = []"
    with assms(4) show ?thesis by simp
  next
    assume "\<exists>l \<in> set (items ord). filter (\<lambda>l. item_productId l = pid) (items ord) = [l]"
    then obtain l where l: "l \<in> set (items ord)"
      "filter (\<lambda>l. item_productId l = pid) (items ord) = [l]"
      by blast
    from l(2) have "l \<in> set (filter (\<lambda>l. item_productId l = pid) (items ord))"
      by simp
    then have "item_productId l = pid" by simp
    with checked_line_within_stock [OF checked l(1)] assms(3) have "item_quantity l \<le> stock p"
      by auto
    with l(2) show ?thesis by simp
  qed
  obtain m c where pub: "publish (sendMessages_rejects fl) ?s1 ord = ?s1\<lparr>sent := m, console := c\<rparr>"
    using publish_frame by blast
  have "products (snd (decrease_stock (updateOne_rejects fl) 0 (items ord)
      (publish (sendMessages_rejects fl) ?s1 ord))) pid =
    map_option (\<lambda>p. p\<lparr>stock := stock p - ?due\<rparr>)
       (products (publish (sendMessages_rejects fl) ?s1 ord) pid)"
    by (rule decrease_stock_products) (simp add: dec)
  then have "products (snd (place_order pl fl now s body)) pid = Some (p\<lparr>stock := stock p - ?due\<rparr>)"
    unfolding dec by (simp add: pub assms(3))
  with due show ?thesis by simp
qed



lemma updateOne_orders_next_id:
  "updateOne (s\<lparr>orders := os, next_id := n\<rparr>) pid d = (updateOne s pid d)\<lparr>orders := os, next_id := n\<rparr>"
  by (simp add: updateOne_def split: option.splits)

lemma decrease_stock_orders_next_id:
  "decrease_stock rej i ls (s\<lparr>orders := os, next_id := n\<rparr>) =
     (fst (decrease_stock rej i ls s), (snd (decrease_stock rej i ls s))\<lparr>orders := os, next_id := n\<rparr>)"
  by (induction ls arbitrary: i s) (auto simp: updateOne_orders_next_id split: option.splits)

text \<open>
  C6, as stated, fails: when the update for the second line rejects, the answer is 500
  ``Failed to create order.'', not 201. The order stays stored and the first line's
  decrement stays applied.
\<close>

theorem failed_decrement_answers_500:
  "fst (place_order demo (stock_update_fails 1) 7 shop (request [(''P'', 3), (''Q'', 2)])) =
     Response 500 (ErrorJson ''Failed to create order.'') \<and>
   orders (snd (place_order demo (stock_update_fails 1) 7 shop (request [(''P'', 3), (''Q'', 2)]))) 0 =
     Some \<lparr>order_id = 0, status = ''PENDING'',
        items = [\<lparr>item_productId = ''P'', item_name = ''P'', item_price = 10, item_quantity = 3\<rparr>,
                 \<lparr>item_productId = ''Q'', item_name = ''Q'', item_price = 5 / 2, item_quantity = 2\<rparr>],
        totalAmount = 35, createdAt = 7, updatedAt = 7\<rparr> \<and>
   map_option stock
     (products (snd (place_order demo (stock_update_fails 1) 7 shop (request [(''P'', 3), (''Q'', 2)]))) ''P'') =
     Some 2 \<and>
   map_option stock
     (products (snd (place_order demo (stock_update_fails 1) 7 shop (request [(''P'', 3), (''Q'', 2)]))) ''Q'') =
     Some 4"
  by (simp add: handler_defs demo_defs stock_update_fails_def)

text \<open>
  C6, amended. The stock updates are awaited inside the handler's \<^verbatim>\<open>try\<close>, before the
  201 is sent. When the update for line \<open>k\<close> is the first to reject, the request is
  answered with 500 ``Failed to create order.''; the order saved before stays stored, the
  decrements of the lines before \<open>k\<close> stay applied, and no later line is decremented.
\<close>

theorem failed_decrement_keeps_order_fails_request:
  assumes "body_items body = Some its" and "its \<noteq> []"
    and "validate_items pl (findById_rejects fl) (products s) 0 its [] 0 = Inr (lines, amount)"
    and "order_schema_ok ''PENDING'' lines" and "save_rejects fl = None"
    and "\<forall>j < k. updateOne_rejects fl j = None" and "updateOne_rejects fl k = Some err"
    and "k < length lines"
  shows "fst (place_order pl fl now s body) = Response 500 (ErrorJson ''Failed to create order.'') \<and>
    orders (snd (place_order pl fl now s body)) (next_id s) =
      Some \<lparr>order_id = next_id s, status = ''PENDING'', items = lines, totalAmount = amount,
             createdAt = now, updatedAt = now\<rparr> \<and>
    products (snd (place_order pl fl now s body)) =
      products (snd (decrease_stock (\<lambda>_. None) 0 (take k lines) s))"
proof -
  let ?ord = "\<lparr>order_id = next_id s, status = ''PENDING'', items = lines, totalAmount = amount,
             createdAt = now, updatedAt = now\<rparr>"
  let ?s1 = "s\<lparr>orders := (orders s)(next_id s \<mapsto> ?ord), next_id := Suc (next_id s)\<rparr>"
  obtain m c where pub: "publish (sendMessages_rejects fl) ?s1 ?ord = ?s1\<lparr>sent := m, console := c\<rparr>"
    using publish_frame by blast
  have sv: "save (save_rejects fl) now s ''PENDING'' lines amount = Inr (?ord, ?s1)"
    using assms(4,5) by (simp add: save_def Let_def)
  have "decrease_stock (updateOne_rejects fl) 0 lines (publish (sendMessages_rejects fl) ?s1 ?ord) =
      (Some err, snd (decrease_stock (\<lambda>_. None) 0 (take k lines)
          (publish (sendMessages_rejects fl) ?s1 ?ord)))"
    using assms(6,7,8) by (intro decrease_stock_first_reject) auto
  then have dec: "decrease_stock (updateOne_rejects fl) 0 lines
      (publish (sendMessages_rejects fl) ?s1 ?ord) =
      (Some err, (snd (decrease_stock (\<lambda>_. None) 0 (take k lines) s))
         \<lparr>orders := (orders s)(next_id s \<mapsto> ?ord), next_id := Suc (next_id s),
          sent := m, console := c\<rparr>)"
    by (simp add: pub decrease_stock_sent_console decrease_stock_orders_next_id)
  have "place_order pl fl now s body =
      create_failed ((snd (decrease_stock (\<lambda>_. None) 0 (take k lines) s))
         \<lparr>orders := (orders s)(next_id s \<mapsto> ?ord), next_id := Suc (next_id s),
          sent := m, console := c\<rparr>)"
    using assms(1,2,3) by (simp add: place_order_def sv dec)
  then show ?thesis
    by (simp add: create_failed_def)
qed

theorem failed_decrement_keeps_order_fails_request_witness:
  "updateOne_rejects (stock_update_fails 1) 0 = None \<and>
   updateOne_rejects (stock_update_fails 1) 1 = Some (Error ''connection lost'') \<and>
   fst (place_order demo (stock_update_fails 1) 7 shop (request [(''P'', 3), (''Q'', 2)])) =
     Response 500 (ErrorJson ''Failed to create order.'') \<and>
   orders (snd (place_order demo (stock_update_fails 1) 7 shop (request [(''P'', 3), (''Q'', 2)]))) 0 =
     Some \<lparr>order_id = 0, status = ''PENDING'',
        items = [\<lparr>item_productId = ''P'', item_name = ''P'', item_price = 10, item_quantity = 3\<rparr>,
                 \<lparr>item_productId = ''Q'', item_name = ''Q'', item_price = 5 / 2, item_quantity = 2\<rparr>],
        totalAmount = 35, createdAt = 7, updatedAt = 7\<rparr> \<and>
   products (snd (place_order demo (stock_update_fails 1) 7 shop (request [(''P'', 3), (''Q'', 2)]))) =
     [''P'' \<mapsto> product_P\<lparr>stock := 2\<rparr>, ''Q'' \<mapsto> product_Q]"
proof -
  let ?lines = "[\<lparr>item_productId = ''P'', item_name = ''P'', item_price = 10, item_quantity = 3\<rparr>,
                 \<lparr>item_productId = ''Q'', item_name = ''Q'', item_price = 5 / 2, item_quantity = 2\<rparr>]"
  have b: "body_items (request [(''P'', 3), (''Q'', 2)]) =
      Some [Some \<lparr>productId = Some ''P'', quantity = Some 3\<rparr>,
       Some \<lparr>productId = Some ''Q'', quantity = Some 2\<rparr>]"
    by (simp add: request_def)
  have v: "validate_items demo (findById_rejects (stock_update_fails 1)) (products shop) 0
      [Some \<lparr>productId = Some ''P'', quantity = Some 3\<rparr>,
       Some \<lparr>productId = Some ''Q'', quantity = Some 2\<rparr>] [] 0 =
      Inr (?lines, 35)"
    by (simp add: handler_defs demo_defs stock_update_fails_def)
  have ok: "order_schema_ok ''PENDING'' ?lines"
    by (simp add: order_schema_ok_def item_schema_ok_def allowedStatuses_def)
  have sr: "save_rejects (stock_update_fails 1) = None"
    by (simp add: stock_update_fails_def no_faults_def)
  have r0: "\<forall>j < 1. updateOne_rejects (stock_update_fails 1) j = None"
    by (simp add: stock_update_fails_def no_faults_def)
  have r1: "updateOne_rejects (stock_update_fails 1) 1 = Some (Error ''connection lost'')"
    by (simp add: stock_update_fails_def no_faults_def)
  have d: "products (snd (decrease_stock (\<lambda>_. None) 0 (take 1 ?lines) shop)) =
      [''P'' \<mapsto> product_P\<lparr>stock := 2\<rparr>, ''Q'' \<mapsto> product_Q]"
    by (simp add: updateOne_def demo_defs fun_upd_twist)
  have n: "next_id shop = 0"
    by (simp add: shop_def)
  from failed_decrement_keeps_order_fails_request [OF b _ v ok sr r0 r1, of 7] r0 r1 d
  show ?thesis by (simp add: n)
qed

text \<open>
  C7, as stated, fails where an id does not resolve. For an id that resolves to no order
  and a status outside the three values the answer is 400, not 404, since the status is
  checked before the order is looked up. For an id that is no ObjectId and a valid
  status the answer is 500, not 404, since the lookup rejects.
\<close>

theorem invalid_status_wins_over_missing_order:
  "castOrderId demo ''42'' = Some 42 \<and> orders shop1 42 = None \<and>
   update_status demo None 9 shop1 ''42'' (Some (JStr ''SHIPPED'')) =
     (Inr (Response 400
        (ErrorJson ''Invalid status. Allowed values: PENDING, COMPLETED, CANCELLED.'')),
      shop1) \<and>
   castOrderId demo ''no-such-id'' = None \<and>
   fst (update_status demo None 9 shop1 ''no-such-id'' (Some (JStr ''COMPLETED''))) =
     Inr (Response 500 (ErrorJson ''Failed to update order.''))"
  by (simp add: update_status_def update_failed_def invalid_status_def shop1_def demo_def
      demo_order_id_def ascii_upper_char_def allowedStatuses_def)

text \<open>
  C7, amended. For a status that is missing, falsy or a string. The status is checked
  first: missing, falsy (\<^verbatim>\<open>null\<close>, \<^verbatim>\<open>false\<close>, 0, the empty string) or a string that
  \<^verbatim>\<open>toUpperCase\<close> does not turn into one of PENDING, COMPLETED, CANCELLED, the answer is
  400 and the state is unchanged, whether or not the id resolves. Otherwise, when the id
  is no ObjectId or the database call fails, the handler's \<^verbatim>\<open>catch\<close> answers 500 ``Failed
  to update order.'' and no order changes; when the id is an ObjectId under which there
  is no order, the answer is 404 with the state unchanged; and when there is one, the
  answer is 200 with the order whose status is the upper-cased value and whose
  \<open>updatedAt\<close> is the time of the request, whatever its status was before; that order
  is the stored one.
\<close>

theorem update_status_checks_status_first:
  "((st = None \<or> (\<exists>v. st = Some v \<and> \<not> truthy v) \<or>
     (\<exists>str. st = Some (JStr str) \<and> toUpperCase pl str \<notin> set allowedStatuses)) \<longrightarrow>
      update_status pl rej now s ident st =
        (Inr (Response 400
           (ErrorJson ''Invalid status. Allowed values: PENDING, COMPLETED, CANCELLED.'')), s)) \<and>
   (\<forall>str. st = Some (JStr str) \<and> str \<noteq> [] \<and> toUpperCase pl str \<in> set allowedStatuses \<longrightarrow>
      (castOrderId pl ident = None \<or> rej \<noteq> None \<longrightarrow>
         update_status pl rej now s ident st =
           (Inr (Response 500 (ErrorJson ''Failed to update order.'')),
            s\<lparr>console := console s @ [ConsoleError ''[Order-Service] Error updating order'']\<rparr>)) \<and>
      (\<forall>oid. castOrderId pl ident = Some oid \<and> rej = None \<longrightarrow>
         (orders s oid = None \<longrightarrow>
            update_status pl rej now s ident st =
              (Inr (Response 404 (ErrorJson ''Order not found.'')), s)) \<and>
         (\<forall>ord. orders s oid = Some ord \<longrightarrow>
            update_status pl rej now s ident st =
              (Inr (Response 200
                 (OrderJson (ord\<lparr>status := toUpperCase pl str, updatedAt := now\<rparr>))),
               s\<lparr>orders :=
                   (orders s)(oid \<mapsto> ord\<lparr>status := toUpperCase pl str, updatedAt := now\<rparr>)\<rparr>))))"
proof (intro conjI impI allI, goal_cases)
  case 1
  then show ?case
    by (auto simp: update_status_def invalid_status_def split: jsval.splits)
next
  case (2 str)
  then show ?case
    by (auto simp: update_status_def update_failed_def split: option.splits)
next
  case (3 str oid)
  then show ?case
    by (simp add: update_status_def)
next
  case (4 str oid ord)
  then show ?case
    by (simp add: update_status_def Let_def)
qed

theorem update_status_checks_status_first_witness:
  "update_status demo None 9 shop1 ''0'' (Some (JStr ''shipped'')) =
     (Inr (Response 400
        (ErrorJson ''Invalid status. Allowed values: PENDING, COMPLETED, CANCELLED.'')),
      shop1) \<and>
   update_status demo None 9 shop1 ''0'' None =
     (Inr (Response 400
        (ErrorJson ''Invalid status. Allowed values: PENDING, COMPLETED, CANCELLED.'')),
      shop1) \<and>
   update_status demo None 9 shop1 ''0'' (Some (JNum 0)) =
     (Inr (Response 400
        (ErrorJson ''Invalid status. Allowed values: PENDING, COMPLETED, CANCELLED.'')),
      shop1) \<and>
   update_status demo None 9 shop1 ''no-such-id'' (Some (JStr ''Cancelled'')) =
     (Inr (Response 500 (ErrorJson ''Failed to update order.'')),
      shop1\<lparr>console := [ConsoleError ''[Order-Service] Error updating order'']\<rparr>) \<and>
   update_status demo (Some (Error ''connection lost'')) 9 shop1 ''0'' (Some (JStr ''Cancelled'')) =
     (Inr (Response 500 (ErrorJson ''Failed to update order.'')),
      shop1\<lparr>console := [ConsoleError ''[Order-Service] Error updating order'']\<rparr>) \<and>
   update_status demo None 9 shop1 ''42'' (Some (JStr ''Cancelled'')) =
     (Inr (Response 404 (ErrorJson ''Order not found.'')), shop1) \<and>
   update_status demo None 9 shop1 ''0'' (Some (JStr ''pending'')) =
     (Inr (Response 200 (OrderJson (first_order\<lparr>status := ''PENDING'', updatedAt := 9\<rparr>))),
      shop1\<lparr>orders := (orders shop1)(0 \<mapsto> first_order\<lparr>status := ''PENDING'', updatedAt := 9\<rparr>)\<rparr>) \<and>
   status first_order = ''COMPLETED''"
proof -
  have u1: "toUpperCase demo ''shipped'' = ''SHIPPED''"
    unfolding demo_def platform.simps by code_simp
  have u2: "toUpperCase demo ''Cancelled'' = ''CANCELLED''"
    unfolding demo_def platform.simps by code_simp
  have u3: "toUpperCase demo ''pending'' = ''PENDING''"
    unfolding demo_def platform.simps by code_simp
  have defs: "castOrderId demo ''0'' = Some 0" "castOrderId demo ''42'' = Some 42"
    "castOrderId demo ''no-such-id'' = None"
    "allowedStatuses = [''PENDING'', ''COMPLETED'', ''CANCELLED'']"
    by (simp_all add: demo_def demo_order_id_def allowedStatuses_def)
  have o0: "orders shop1 0 = Some first_order" and o42: "orders shop1 42 = None"
    and log: "console shop1 = []"
    by (simp_all add: shop1_def shop_def)
  show ?thesis
  proof (intro conjI)
    show "update_status demo None 9 shop1 ''0'' (Some (JStr ''shipped'')) =
     (Inr (Response 400
        (ErrorJson ''Invalid status. Allowed values: PENDING, COMPLETED, CANCELLED.'')),
      shop1)"
      using update_status_checks_status_first [where pl = demo and rej = "None" and now = 9
        and s = shop1 and ident = "''0''" and st = "Some (JStr ''shipped'')"]
      by (simp add: u1 defs)
    show "update_status demo None 9 shop1 ''0'' None =
     (Inr (Response 400
        (ErrorJson ''Invalid status. Allowed values: PENDING, COMPLETED, CANCELLED.'')),
      shop1)"
      using update_status_checks_status_first [where pl = demo and rej = "None" and now = 9
        and s = shop1 and ident = "''0''" and st = "None"]
      by simp
    show "update_status demo None 9 shop1 ''0'' (Some (JNum 0)) =
     (Inr (Response 400
        (ErrorJson ''Invalid status. Allowed values: PENDING, COMPLETED, CANCELLED.'')),
      shop1)"
      using update_status_checks_status_first [where pl = demo and rej = "None" and now = 9
        and s = shop1 and ident = "''0''" and st = "Some (JNum 0)"]
      by simp
    show "update_status demo None 9 shop1 ''no-such-id'' (Some (JStr ''Cancelled'')) =
     (Inr (Response 500 (ErrorJson ''Failed to update order.'')),
      shop1\<lparr>console := [ConsoleError ''[Order-Service] Error updating order'']\<rparr>)"
      using update_status_checks_status_first [where pl = demo and rej = "None" and now = 9
        and s = shop1 and ident = "''no-such-id''" and st = "Some (JStr ''Cancelled'')"]
      by (simp add: u2 defs log)
    show "update_status demo (Some (Error ''connection lost'')) 9 shop1 ''0'' (Some (JStr ''Cancelled'')) =
     (Inr (Response 500 (ErrorJson ''Failed to update order.'')),
      shop1\<lparr>console := [ConsoleError ''[Order-Service] Error updating order'']\<rparr>)"
      using update_status_checks_status_first [where pl = demo and rej = "Some (Error ''connection lost'')" and now = 9
        and s = shop1 and ident = "''0''" and st = "Some (JStr ''Cancelled'')"]
      by (simp add: u2 defs log)
    show "update_status demo None 9 shop1 ''42'' (Some (JStr ''Cancelled'')) =
     (Inr (Response 404 (ErrorJson ''Order not found.'')), shop1)"
      using update_status_checks_status_first [where pl = demo and rej = "None" and now = 9
        and s = shop1 and ident = "''42''" and st = "Some (JStr ''Cancelled'')"]
      by (simp add: u2 defs o42)
    show "update_status demo None 9 shop1 ''0'' (Some (JStr ''pending'')) =
     (Inr (Response 200 (OrderJson (first_order\<lparr>status := ''PENDING'', updatedAt := 9\<rparr>))),
      shop1\<lparr>orders := (orders shop1)(0 \<mapsto> first_order\<lparr>status := ''PENDING'', updatedAt := 9\<rparr>)\<rparr>)"
      using update_status_checks_status_first [where pl = demo and rej = "None" and now = 9
        and s = shop1 and ident = "''0''" and st = "Some (JStr ''pending'')"]
      by (simp add: u3 defs o0)
    show "status first_order = ''COMPLETED''"
      by (simp add: first_order_def)
  qed
qed

text \<open>
  A status that is truthy and no string, a number or an object, is outside the statement
  above: the handler throws at the check, before its \<^verbatim>\<open>try\<close>, and the state is
  unchanged.
\<close>

lemma non_string_status_throws:
  "truthy v \<Longrightarrow> \<forall>str. v \<noteq> JStr str \<Longrightarrow>
   update_status pl rej now s ident (Some v) =
     (Inl (Error ''status.toUpperCase is not a function''), s)"
  by (cases v) (simp_all add: update_status_def)

text \<open>
  C8. \<^verbatim>\<open>sendOrderCreatedMessage\<close> always resolves. Without both settings
  \<^verbatim>\<open>initServiceBus\<close> leaves the sender \<^verbatim>\<open>null\<close>, and without a sender a call only prints a
  warning. With a sender, a rejected send only prints an error. Whether the send is
  rejected or not, the place-order request gets the same answer and leaves the same
  orders and products.
\<close>

theorem publish_never_raises:
  "(\<exists>s'. sendOrderCreatedMessage rej s ord = Inr s') \<and>
   (sbSender s0 = None \<and> (falsy_string conn \<or> falsy_string qn) \<longrightarrow>
      sbSender (initServiceBus conn qn client_throws s0) = None) \<and>
   (sbSender s = None \<longrightarrow>
      sendOrderCreatedMessage rej s ord =
        Inr (s\<lparr>console := console s @
          [Warn ''[ServiceBus] Sender is not initialized. Skipping message send.'']\<rparr>)) \<and>
   (\<forall>q err. sbSender s = Some q \<and> rej = Some err \<longrightarrow>
      sendOrderCreatedMessage rej s ord =
        Inr (s\<lparr>console := console s @
          [ConsoleError (''[ServiceBus] Failed to send OrderCreated message: '' @ message err)]\<rparr>)) \<and>
   fst (place_order pl (fl\<lparr>sendMessages_rejects := rej\<rparr>) now s body) =
     fst (place_order pl (fl\<lparr>sendMessages_rejects := None\<rparr>) now s body) \<and>
   orders (snd (place_order pl (fl\<lparr>sendMessages_rejects := rej\<rparr>) now s body)) =
     orders (snd (place_order pl (fl\<lparr>sendMessages_rejects := None\<rparr>) now s body)) \<and>
   products (snd (place_order pl (fl\<lparr>sendMessages_rejects := rej\<rparr>) now s body)) =
     products (snd (place_order pl (fl\<lparr>sendMessages_rejects := None\<rparr>) now s body))"
proof -
  have never: "\<exists>s'. sendOrderCreatedMessage rej s ord = Inr s'"
    by (simp add: sendOrderCreatedMessage_def split: sum.splits)
  have inert: "sbSender s0 = None \<and> (falsy_string conn \<or> falsy_string qn) \<longrightarrow>
      sbSender (initServiceBus conn qn client_throws s0) = None"
    by (auto simp: initServiceBus_def)
  have noop: "sbSender s = None \<longrightarrow>
      sendOrderCreatedMessage rej s ord =
        Inr (s\<lparr>console := console s @
          [Warn ''[ServiceBus] Sender is not initialized. Skipping message send.'']\<rparr>)"
    by (simp add: sendOrderCreatedMessage_def send_try_def)
  have swallowed: "\<forall>q err. sbSender s = Some q \<and> rej = Some err \<longrightarrow>
      sendOrderCreatedMessage rej s ord =
        Inr (s\<lparr>console := console s @
          [ConsoleError (''[ServiceBus] Failed to send OrderCreated message: '' @ message err)]\<rparr>)"
    by (simp add: sendOrderCreatedMessage_def send_try_def)
  have same: "fst (place_order pl (fl\<lparr>sendMessages_rejects := r\<rparr>) now s body) =
       fst (place_order pl (fl\<lparr>sendMessages_rejects := None\<rparr>) now s body) \<and>
     orders (snd (place_order pl (fl\<lparr>sendMessages_rejects := r\<rparr>) now s body)) =
       orders (snd (place_order pl (fl\<lparr>sendMessages_rejects := None\<rparr>) now s body)) \<and>
     products (snd (place_order pl (fl\<lparr>sendMessages_rejects := r\<rparr>) now s body)) =
       products (snd (place_order pl (fl\<lparr>sendMessages_rejects := None\<rparr>) now s body))" for r
  proof (cases "body_items body")
    case None
    then show ?thesis by (simp add: place_order_def)
  next
    case (Some its)
    show ?thesis
    proof (cases "validate_items pl (findById_rejects fl) (products s) 0 its [] 0")
      case (Inl a)
      with Some show ?thesis
        by (cases a) (simp_all add: place_order_def)
    next
      case (Inr res)
      obtain lines amount where res: "res = (lines, amount)" by (cases res)
      show ?thesis
      proof (cases "save (save_rejects fl) now s ''PENDING'' lines amount")
        case (Inl err)
        with Some Inr res show ?thesis by (simp add: place_order_def)
      next
        case (Inr saved)
        obtain savedOrder s1 where saved: "saved = (savedOrder, s1)" by (cases saved)
        obtain m c where p1: "publish r s1 savedOrder = s1\<lparr>sent := m, console := c\<rparr>"
          using publish_frame by blast
        obtain m' c' where p2: "publish None s1 savedOrder = s1\<lparr>sent := m', console := c'\<rparr>"
          using publish_frame by blast
        from Some \<open>validate_items pl (findById_rejects fl) (products s) 0 its [] 0 = Inr res\<close>
          res Inr saved
        show ?thesis
          by (cases "fst (decrease_stock (updateOne_rejects fl) 0 lines s1)")
            (simp_all add: place_order_def p1 p2 decrease_stock_sent_console create_failed_def)
      qed
    qed
  qed
  from never inert noop swallowed same [of rej] show ?thesis
    by blast
qed

theorem publish_never_raises_witness:
  "sbSender (initServiceBus None (Some ''orders'') None (shop\<lparr>sbSender := None\<rparr>)) = None \<and>
   sendOrderCreatedMessage None (shop\<lparr>sbSender := None\<rparr>) first_order =
     Inr (shop\<lparr>sbSender := None,
       console := [Warn ''[ServiceBus] Sender is not initialized. Skipping message send.'']\<rparr>) \<and>
   sbSender shop = Some ''orders'' \<and>
   sendOrderCreatedMessage (Some (Error ''timeout'')) shop first_order =
     Inr (shop\<lparr>console :=
       [ConsoleError ''[ServiceBus] Failed to send OrderCreated message: timeout'']\<rparr>) \<and>
   fst (place_order demo (no_faults\<lparr>sendMessages_rejects := Some (Error ''timeout'')\<rparr>) 7 shop
          (request [(''P'', 3)])) =
     Response 201 (OrderJson
       \<lparr>order_id = 0, status = ''PENDING'',
        items = [\<lparr>item_productId = ''P'', item_name = ''P'', item_price = 10, item_quantity = 3\<rparr>],
        totalAmount = 30, createdAt = 7, updatedAt = 7\<rparr>)"
proof -
  have sender: "sbSender shop = Some ''orders''" and log: "console shop = []"
    by (simp_all add: shop_def)
  have a: "sbSender (initServiceBus None (Some ''orders'') None (shop\<lparr>sbSender := None\<rparr>)) = None"
    using publish_never_raises [where ?s0.0 = "shop\<lparr>sbSender := None\<rparr>" and conn = None
        and qn = "Some ''orders''" and client_throws = None and s = "shop" and rej = "None"
        and ord = first_order and pl = demo and fl = no_faults and now = 7 and body = "request [(''P'', 3)]"]
    by (simp add: falsy_string_def)
  have b: "sendOrderCreatedMessage None (shop\<lparr>sbSender := None\<rparr>) first_order =
     Inr (shop\<lparr>sbSender := None,
       console := [Warn ''[ServiceBus] Sender is not initialized. Skipping message send.'']\<rparr>)"
    using publish_never_raises [where ?s0.0 = "shop\<lparr>sbSender := None\<rparr>" and conn = None
        and qn = "Some ''orders''" and client_throws = None and s = "shop\<lparr>sbSender := None\<rparr>" and rej = "None"
        and ord = first_order and pl = demo and fl = no_faults and now = 7 and body = "request [(''P'', 3)]"]
    by (simp add: log)
  have c: "sendOrderCreatedMessage (Some (Error ''timeout'')) shop first_order =
     Inr (shop\<lparr>console :=
       [ConsoleError ''[ServiceBus] Failed to send OrderCreated message: timeout'']\<rparr>)"
    using publish_never_raises [where ?s0.0 = "shop\<lparr>sbSender := None\<rparr>" and conn = None
        and qn = "Some ''orders''" and client_throws = None and s = "shop" and rej = "Some (Error ''timeout'')"
        and ord = first_order and pl = demo and fl = no_faults and now = 7 and body = "request [(''P'', 3)]"]
    by (simp add: sender log)
  have ok: "fst (place_order demo (no_faults\<lparr>sendMessages_rejects := None\<rparr>) 7 shop
          (request [(''P'', 3)])) =
     Response 201 (OrderJson
       \<lparr>order_id = 0, status = ''PENDING'',
        items = [\<lparr>item_productId = ''P'', item_name = ''P'', item_price = 10, item_quantity = 3\<rparr>],
        totalAmount = 30, createdAt = 7, updatedAt = 7\<rparr>)"
    by (simp add: handler_defs demo_defs)
  have d: "fst (place_order demo (no_faults\<lparr>sendMessages_rejects := Some (Error ''timeout'')\<rparr>) 7 shop
          (request [(''P'', 3)])) =
     Response 201 (OrderJson
       \<lparr>order_id = 0, status = ''PENDING'',
        items = [\<lparr>item_productId = ''P'', item_name = ''P'', item_price = 10, item_quantity = 3\<rparr>],
        totalAmount = 30, createdAt = 7, updatedAt = 7\<rparr>)"
    using publish_never_raises [where ?s0.0 = "shop\<lparr>sbSender := None\<rparr>" and conn = None
        and qn = "Some ''orders''" and client_throws = None and s = "shop" and rej = "Some (Error ''timeout'')"
        and ord = first_order and pl = demo and fl = no_faults and now = 7 and body = "request [(''P'', 3)]"] ok
    by simp
  from a b sender c d show ?thesis by simp
qed

lemma save_item_quantities:
  "save rej now s st lines amount = Inr (ord, s') \<Longrightarrow>
   orders s' = (orders s)(next_id s \<mapsto> ord) \<and> items ord = lines \<and> status ord = st \<and>
   (\<forall>l \<in> set lines. 1 \<le> item_quantity l)"
  by (auto simp: save_def Let_def order_schema_ok_def item_schema_ok_def list_all_iff
      split: if_splits option.splits)

lemma ran_upd_subset: "ran (m(k \<mapsto> v)) \<subseteq> insert v (ran m)"
  by (auto simp: ran_def)

lemma place_order_orders:
  "orders (snd (place_order pl fl now s body)) = orders s \<or>
   (\<exists>ord. orders (snd (place_order pl fl now s body)) = (orders s)(next_id s \<mapsto> ord) \<and>
      status ord = ''PENDING'' \<and> (\<forall>l \<in> set (items ord). 1 \<le> item_quantity l))"
proof (cases "body_items body")
  case None
  then show ?thesis by (simp add: place_order_def)
next
  case (Some its)
  show ?thesis
  proof (cases "validate_items pl (findById_rejects fl) (products s) 0 its [] 0")
    case (Inl a)
    with Some show ?thesis
      by (cases a) (simp_all add: place_order_def create_failed_def)
  next
    case (Inr res)
    obtain lines amount where res: "res = (lines, amount)" by (cases res)
    show ?thesis
    proof (cases "its = [] \<or> isl (save (save_rejects fl) now s ''PENDING'' lines amount)")
      case True
      with Some Inr res show ?thesis
        by (auto simp: place_order_def create_failed_def isl_def)
    next
      case False
      then have nonempty: "its \<noteq> []" by simp
      from False obtain saved where
        Inr: "save (save_rejects fl) now s ''PENDING'' lines amount = Inr saved"
        by (cases "save (save_rejects fl) now s ''PENDING'' lines amount") auto
      obtain savedOrder s1 where saved: "saved = (savedOrder, s1)" by (cases saved)
      obtain m c where pub: "publish (sendMessages_rejects fl) s1 savedOrder =
          s1\<lparr>sent := m, console := c\<rparr>"
        using publish_frame by blast
      from Inr saved have sv: "orders s1 = (orders s)(next_id s \<mapsto> savedOrder) \<and>
          items savedOrder = lines \<and> status savedOrder = ''PENDING'' \<and>
          (\<forall>l \<in> set lines. 1 \<le> item_quantity l)"
        by (intro save_item_quantities) simp
      have "orders (snd (place_order pl fl now s body)) =
          orders (snd (decrease_stock (updateOne_rejects fl) 0 lines s1))"
        using Some \<open>validate_items pl (findById_rejects fl) (products s) 0 its [] 0 = Inr res\<close>
          res Inr saved nonempty
        by (cases "fst (decrease_stock (updateOne_rejects fl) 0 lines s1)")
          (simp_all add: place_order_def pub decrease_stock_sent_console create_failed_def)
      then have "orders (snd (place_order pl fl now s body)) = orders s1"
        by (simp add: decrease_stock_frame)
      with sv show ?thesis by auto
    qed
  qed
qed

text \<open>
  C9, as stated, fails: a quantity of 3/2 passes the handler's check and the schema's
  \<^verbatim>\<open>min: 1\<close>, and the order is stored with it.
\<close>

theorem fractional_quantity_is_stored:
  "fst (place_order demo no_faults 7 shop (request [(''Q'', 3 / 2)])) =
     Response 201 (OrderJson
       \<lparr>order_id = 0, status = ''PENDING'',
        items = [\<lparr>item_productId = ''Q'', item_name = ''Q'', item_price = 5 / 2,
                  item_quantity = 3 / 2\<rparr>],
        totalAmount = 15 / 4, createdAt = 7, updatedAt = 7\<rparr>) \<and>
   map_option (map item_quantity \<circ> items)
     (orders (snd (place_order demo no_faults 7 shop (request [(''Q'', 3 / 2)]))) 0) = Some [3 / 2] \<and>
   (3 / 2 :: rat) \<notin> \<int>"
proof -
  have "(3 / 2 :: rat) \<notin> \<int>"
  proof
    assume "(3 / 2 :: rat) \<in> \<int>"
    then obtain n :: int where "(3 / 2 :: rat) = of_int n"
      by (auto elim: Ints_cases)
    then have "(of_int 3 :: rat) = of_int (2 * n)"
      by simp
    then have "(3 :: int) = 2 * n"
      by (simp only: of_int_eq_iff)
    then show False
      by presburger
  qed
  then show ?thesis
    by (simp add: handler_defs demo_defs)
qed

text \<open>
  C9, amended. Every line of every stored order has a quantity of at least 1 (a number,
  not necessarily whole): placing an order and updating a status keep this true of the
  order collection.
\<close>

theorem stored_quantities_at_least_one:
  assumes "\<forall>ord \<in> ran (orders s). \<forall>l \<in> set (items ord). 1 \<le> item_quantity l"
  shows "(\<forall>ord \<in> ran (orders (snd (place_order pl fl now s body))).
            \<forall>l \<in> set (items ord). 1 \<le> item_quantity l) \<and>
    (\<forall>ord \<in> ran (orders (snd (update_status pl rej now s ident st))).
            \<forall>l \<in> set (items ord). 1 \<le> item_quantity l)"
proof
  from place_order_orders [of pl fl now s body]
  show "\<forall>ord \<in> ran (orders (snd (place_order pl fl now s body))).
      \<forall>l \<in> set (items ord). 1 \<le> item_quantity l"
  proof
    assume "orders (snd (place_order pl fl now s body)) = orders s"
    with assms show ?thesis by simp
  next
    assume "\<exists>ord. orders (snd (place_order pl fl now s body)) = (orders s)(next_id s \<mapsto> ord) \<and>
      status ord = ''PENDING'' \<and> (\<forall>l \<in> set (items ord). 1 \<le> item_quantity l)"
    then obtain new where new: "orders (snd (place_order pl fl now s body)) =
        (orders s)(next_id s \<mapsto> new)" "\<forall>l \<in> set (items new). 1 \<le> item_quantity l"
      by blast
    show ?thesis
    proof
      fix ord
      assume "ord \<in> ran (orders (snd (place_order pl fl now s body)))"
      then have "ord = new \<or> ord \<in> ran (orders s)"
        using ran_upd_subset [of "orders s" "next_id s" new] by (auto simp: new(1))
      with new(2) assms show "\<forall>l \<in> set (items ord). 1 \<le> item_quantity l"
        by blast
    qed
  qed
next
  show "\<forall>ord \<in> ran (orders (snd (update_status pl rej now s ident st))).
      \<forall>l \<in> set (items ord). 1 \<le> item_quantity l"
  proof (cases "\<exists>old v oid. orders s oid = Some old \<and>
      orders (snd (update_status pl rej now s ident st)) =
      (orders s)(oid \<mapsto> old\<lparr>status := v, updatedAt := now\<rparr>)")
    case True
    then obtain old v oid where old: "orders s oid = Some old"
      "orders (snd (update_status pl rej now s ident st)) =
        (orders s)(oid \<mapsto> old\<lparr>status := v, updatedAt := now\<rparr>)"
      by blast
    from old(1) have "old \<in> ran (orders s)"
      by (auto simp: ran_def)
    with assms have q: "\<forall>l \<in> set (items old). 1 \<le> item_quantity l"
      by blast
    show ?thesis
    proof
      fix ord
      assume "ord \<in> ran (orders (snd (update_status pl rej now s ident st)))"
      then have "ord = old\<lparr>status := v, updatedAt := now\<rparr> \<or> ord \<in> ran (orders s)"
        using ran_upd_subset [of "orders s" oid "old\<lparr>status := v, updatedAt := now\<rparr>"]
        by (auto simp: old(2))
      with q assms show "\<forall>l \<in> set (items ord). 1 \<le> item_quantity l"
        by auto
    qed
  next
    case False
    then have "orders (snd (update_status pl rej now s ident st)) = orders s"
      by (auto simp: update_status_def update_failed_def Let_def
          split: option.splits if_splits jsval.splits)
    with assms show ?thesis by simp
  qed
qed

theorem stored_quantities_at_least_one_witness:
  "orders shop1 0 = Some first_order \<and>
   list_all (\<lambda>l. 1 \<le> item_quantity l) (items first_order) \<and>
   orders (snd (place_order demo no_faults 8 shop1 (request [(''Q'', 3 / 2)]))) 1 =
     Some \<lparr>order_id = 1, status = ''PENDING'',
        items = [\<lparr>item_productId = ''Q'', item_name = ''Q'', item_price = 5 / 2,
                  item_quantity = 3 / 2\<rparr>],
        totalAmount = 15 / 4, createdAt = 8, updatedAt = 8\<rparr> \<and>
   list_all (\<lambda>l. 1 \<le> item_quantity l)
     (items \<lparr>order_id = 1, status = ''PENDING'',
        items = [\<lparr>item_productId = ''Q'', item_name = ''Q'', item_price = 5 / 2,
                  item_quantity = 3 / 2\<rparr>],
        totalAmount = 15 / 4, createdAt = 8, updatedAt = 8\<rparr>) \<and>
   place_order demo no_faults 8 shop1 (request [(''Q'', 1 / 2)]) = create_failed shop1 \<and>
   orders (snd (update_status demo None 9 shop1 ''0'' (Some (JStr ''cancelled'')))) 0 =
     Some (first_order\<lparr>status := ''CANCELLED'', updatedAt := 9\<rparr>) \<and>
   list_all (\<lambda>l. 1 \<le> item_quantity l)
     (items (first_order\<lparr>status := ''CANCELLED'', updatedAt := 9\<rparr>))"
proof -
  let ?new = "\<lparr>order_id = 1, status = ''PENDING'',
        items = [\<lparr>item_productId = ''Q'', item_name = ''Q'', item_price = 5 / 2,
                  item_quantity = 3 / 2\<rparr>],
        totalAmount = 15 / 4, createdAt = 8, updatedAt = 8\<rparr>"
  have o0: "orders shop1 0 = Some first_order"
    by (simp add: shop1_def)
  have h: "\<forall>ord \<in> ran (orders shop1). \<forall>l \<in> set (items ord). 1 \<le> item_quantity l"
    by (simp add: shop1_def first_order_def)
  have old: "list_all (\<lambda>l. 1 \<le> item_quantity l) (items first_order)"
    by (simp add: first_order_def)
  have stored: "orders (snd (place_order demo no_faults 8 shop1 (request [(''Q'', 3 / 2)]))) 1 = Some ?new"
    by (simp add: handler_defs demo_defs shop1_def)
  have refused: "place_order demo no_faults 8 shop1 (request [(''Q'', 1 / 2)]) = create_failed shop1"
    by (simp add: place_order_def check_item_def bad_item_def save_def order_schema_ok_def
        item_schema_ok_def demo_defs shop1_def)
  have up: "toUpperCase demo ''cancelled'' = ''CANCELLED''"
    unfolding demo_def platform.simps by code_simp
  have cast: "castOrderId demo ''0'' = Some 0"
    by (simp add: demo_def demo_order_id_def)
  have updated: "orders (snd (update_status demo None 9 shop1 ''0'' (Some (JStr ''cancelled'')))) 0 =
      Some (first_order\<lparr>status := ''CANCELLED'', updatedAt := 9\<rparr>)"
    by (simp add: update_status_def up cast allowedStatuses_def o0 Let_def)
  note inv = stored_quantities_at_least_one [OF h, of demo no_faults 8 "request [(''Q'', 3 / 2)]"
      None "''0''" "Some (JStr ''cancelled'')"]
  from stored have "?new \<in> ran (orders (snd (place_order demo no_faults 8 shop1 (request [(''Q'', 3 / 2)]))))"
    by (auto simp: ran_def)
  with inv have q1: "list_all (\<lambda>l. 1 \<le> item_quantity l) (items ?new)"
    unfolding list_all_iff by blast
  note inv' = stored_quantities_at_least_one [OF h, of demo no_faults 9 "request []"
      None "''0''" "Some (JStr ''cancelled'')"]
  from updated have "first_order\<lparr>status := ''CANCELLED'', updatedAt := 9\<rparr> \<in>
      ran (orders (snd (update_status demo None 9 shop1 ''0'' (Some (JStr ''cancelled'')))))"
    by (auto simp: ran_def)
  with inv' have q2: "list_all (\<lambda>l. 1 \<le> item_quantity l)
      (items (first_order\<lparr>status := ''CANCELLED'', updatedAt := 9\<rparr>))"
    unfolding list_all_iff by blast
  from o0 old stored q1 refused updated q2 show ?thesis
    by (intro conjI)
qed

lemma created_order_is_stored:
  assumes "fst (place_order pl fl now s body) = Response 201 (OrderJson ord)"
  shows "orders (snd (place_order pl fl now s body)) (order_id ord) = Some ord"
proof -
  let ?s1 = "s\<lparr>orders := (orders s)(next_id s \<mapsto> ord), next_id := Suc (next_id s)\<rparr>"
  from assms obtain its where
    dec: "decrease_stock (updateOne_rejects fl) 0 (items ord)
           (publish (sendMessages_rejects fl) ?s1 ord) =
           (None, snd (place_order pl fl now s body))"
    and oid: "order_id ord = next_id s"
    by (rule place_order_created)
  obtain m c where pub: "publish (sendMessages_rejects fl) ?s1 ord = ?s1\<lparr>sent := m, console := c\<rparr>"
    using publish_frame by blast
  have "orders (snd (place_order pl fl now s body)) =
      orders (publish (sendMessages_rejects fl) ?s1 ord)"
    using decrease_stock_frame [of "updateOne_rejects fl" 0 "items ord"
        "publish (sendMessages_rejects fl) ?s1 ord"]
    unfolding dec by simp
  with oid show ?thesis
    by (simp add: pub)
qed

text \<open>
  C10. Two bodies with the same \<open>items\<close> get the same answer and leave the same
  state, whatever else they carry. The order of a 201 answer has status PENDING and is
  the order stored under its id. Whatever the answer, a request stores at most one order,
  under a new id, and that order has status PENDING: so does the order that stays stored
  when a later step fails and the answer is 500.
\<close>

theorem only_items_is_read:
  "(body_items b1 = body_items b2 \<longrightarrow>
      place_order pl fl now s b1 = place_order pl fl now s b2) \<and>
   (\<forall>ord. fst (place_order pl fl now s b1) = Response 201 (OrderJson ord) \<longrightarrow>
      status ord = ''PENDING'' \<and>
      orders (snd (place_order pl fl now s b1)) (order_id ord) = Some ord) \<and>
   (orders (snd (place_order pl fl now s b1)) = orders s \<or>
    (\<exists>ord. orders (snd (place_order pl fl now s b1)) = (orders s)(next_id s \<mapsto> ord) \<and>
       status ord = ''PENDING''))"
proof (intro conjI impI allI)
  assume "body_items b1 = body_items b2"
  then show "place_order pl fl now s b1 = place_order pl fl now s b2"
    by (simp add: place_order_def)
next
  fix ord
  assume "fst (place_order pl fl now s b1) = Response 201 (OrderJson ord)"
  then show "status ord = ''PENDING''"
    by (rule place_order_created)
next
  fix ord
  assume "fst (place_order pl fl now s b1) = Response 201 (OrderJson ord)"
  then show "orders (snd (place_order pl fl now s b1)) (order_id ord) = Some ord"
    by (rule created_order_is_stored)
next
  from place_order_orders [of pl fl now s b1]
  show "orders (snd (place_order pl fl now s b1)) = orders s \<or>
    (\<exists>ord. orders (snd (place_order pl fl now s b1)) = (orders s)(next_id s \<mapsto> ord) \<and>
       status ord = ''PENDING'')"
    by blast
qed

theorem only_items_is_read_witness:
  "place_order demo no_faults 7 shop
     \<lparr>body_items = Some [Some \<lparr>productId = Some ''P'', quantity = Some 3\<rparr>],
      body_status = Some ''COMPLETED'', body_totalAmount = Some 0,
      body_customerEmail = Some ''mallory@example.org''\<rparr> =
   place_order demo no_faults 7 shop (request [(''P'', 3)]) \<and>
   fst (place_order demo no_faults 7 shop
     \<lparr>body_items = Some [Some \<lparr>productId = Some ''P'', quantity = Some 3\<rparr>],
      body_status = Some ''COMPLETED'', body_totalAmount = Some 0,
      body_customerEmail = Some ''mallory@example.org''\<rparr>) =
     Response 201 (OrderJson
       \<lparr>order_id = 0, status = ''PENDING'',
        items = [\<lparr>item_productId = ''P'', item_name = ''P'', item_price = 10, item_quantity = 3\<rparr>],
        totalAmount = 30, createdAt = 7, updatedAt = 7\<rparr>) \<and>
   orders (snd (place_order demo no_faults 7 shop
     \<lparr>body_items = Some [Some \<lparr>productId = Some ''P'', quantity = Some 3\<rparr>],
      body_status = Some ''COMPLETED'', body_totalAmount = Some 0,
      body_customerEmail = Some ''mallory@example.org''\<rparr>)) 0 =
     Some \<lparr>order_id = 0, status = ''PENDING'',
        items = [\<lparr>item_productId = ''P'', item_name = ''P'', item_price = 10, item_quantity = 3\<rparr>],
        totalAmount = 30, createdAt = 7, updatedAt = 7\<rparr> \<and>
   fst (place_order demo (stock_update_fails 0) 7 shop
     \<lparr>body_items = Some [Some \<lparr>productId = Some ''P'', quantity = Some 3\<rparr>],
      body_status = Some ''COMPLETED'', body_totalAmount = Some 0,
      body_customerEmail = Some ''mallory@example.org''\<rparr>) =
     Response 500 (ErrorJson ''Failed to create order.'') \<and>
   map_option status (orders (snd (place_order demo (stock_update_fails 0) 7 shop
     \<lparr>body_items = Some [Some \<lparr>productId = Some ''P'', quantity = Some 3\<rparr>],
      body_status = Some ''COMPLETED'', body_totalAmount = Some 0,
      body_customerEmail = Some ''mallory@example.org''\<rparr>)) 0) = Some ''PENDING''"
proof -
  let ?body = "\<lparr>body_items = Some [Some \<lparr>productId = Some ''P'', quantity = Some 3\<rparr>],
      body_status = Some ''COMPLETED'', body_totalAmount = Some 0,
      body_customerEmail = Some ''mallory@example.org''\<rparr>"
  let ?ord = "\<lparr>order_id = 0, status = ''PENDING'',
        items = [\<lparr>item_productId = ''P'', item_name = ''P'', item_price = 10, item_quantity = 3\<rparr>],
        totalAmount = 30, createdAt = 7, updatedAt = 7\<rparr>"
  note ok = only_items_is_read [where pl = demo and fl = no_faults and now = 7 and s = shop
      and ?b1.0 = ?body and ?b2.0 = "request [(''P'', 3)]"]
  note failed = only_items_is_read [where pl = demo and fl = "stock_update_fails 0" and now = 7
      and s = shop and ?b1.0 = ?body and ?b2.0 = ?body]
  have same: "place_order demo no_faults 7 shop ?body =
      place_order demo no_faults 7 shop (request [(''P'', 3)])"
    using ok by (simp add: request_def)
  have created: "fst (place_order demo no_faults 7 shop ?body) = Response 201 (OrderJson ?ord)"
    by (simp add: handler_defs demo_defs)
  with ok have stored: "orders (snd (place_order demo no_faults 7 shop ?body)) 0 = Some ?ord"
    by simp
  have answer: "fst (place_order demo (stock_update_fails 0) 7 shop ?body) =
      Response 500 (ErrorJson ''Failed to create order.'')"
    by (simp add: handler_defs demo_defs stock_update_fails_def)
  have kept: "orders (snd (place_order demo (stock_update_fails 0) 7 shop ?body)) 0 \<noteq> None"
    by (simp add: handler_defs demo_defs stock_update_fails_def)
  have "orders shop 0 = None" and "next_id shop = 0"
    by (simp_all add: shop_def)
  with failed kept
  have pending: "map_option status
      (orders (snd (place_order demo (stock_update_fails 0) 7 shop ?body)) 0) = Some ''PENDING''"
    by auto
  from same created stored answer pending show ?thesis
    by (intro conjI)
qed

end
